theory Spec2Isabelle
  imports Complex_Main "HOL-Library.Multiset" "HOL-Library.FSet"
    "HOL-Library.List_Lexorder" "HOL-Library.Char_ord"
begin

section \<open>Python values and exceptions\<close>

text \<open>
  The scripts are Python over shapely, geopandas and pandas. Coordinates, areas and
  scales are Python floats; they are modelled as exact reals, so rounding is outside
  the model. Integers (\<open>cols\<close>, \<open>cell\<close>, \<open>margin\<close>, indices) are Python's
  unbounded \<open>int\<close>. Every \<open>raise\<close> of the source, and every exception of a builtin
  the source calls unguarded, is an \<open>Inl\<close> value of the result.
\<close>

datatype py_error =
    SystemExit
  | KeyboardInterrupt
  | ValueError
  | ZeroDivisionError
  | TypeError
  | OverflowError
  | GEOSException

text \<open>
  \<open>SystemExit\<close> and \<open>KeyboardInterrupt\<close> derive from \<open>BaseException\<close> only; the
  others derive from \<open>Exception\<close>, which is what \<open>except Exception\<close> catches.
\<close>

fun is_Exception :: "py_error \<Rightarrow> bool" where
  "is_Exception SystemExit = False"
| "is_Exception KeyboardInterrupt = False"
| "is_Exception ValueError = True"
| "is_Exception ZeroDivisionError = True"
| "is_Exception TypeError = True"
| "is_Exception OverflowError = True"
| "is_Exception GEOSException = True"

text \<open>\<open>max(...)\<close> of a generator: \<open>ValueError\<close> on an empty sequence.\<close>

fun py_max :: "real list \<Rightarrow> py_error + real" where
  "py_max [] = Inl ValueError"
| "py_max (x # xs) = Inr (fold max xs x)"

text \<open>\<open>a / b\<close> on Python numbers: \<open>ZeroDivisionError\<close> when \<open>b\<close> is zero.\<close>

definition py_truediv :: "real \<Rightarrow> real \<Rightarrow> py_error + real" where
  "py_truediv a b = (if b = 0 then Inl ZeroDivisionError else Inr (a / b))"

text \<open>Sequencing of statements that may raise: the first exception propagates.\<close>

definition bindE :: "py_error + 'a \<Rightarrow> ('a \<Rightarrow> py_error + 'b) \<Rightarrow> py_error + 'b" where
  "bindE m f = (case m of Inl e \<Rightarrow> Inl e | Inr v \<Rightarrow> f v)"

section \<open>Geometries as the renderer reads them\<close>

text \<open>
  A shapely geometry is read through \<open>is_empty\<close>, \<open>bounds\<close>
  (\<open>(minx, miny, maxx, maxy)\<close>), its type (\<open>Polygon\<close>, \<open>MultiPolygon\<close>, anything
  else) and, for polygons, the coordinate rings. \<open>make_valid\<close> of a collapsed
  polygon may return a line or a point, which is why the third case exists.
\<close>

type_synonym point = "real \<times> real"

record polygon =
  exterior :: "point list"
  interiors :: "point list list"

datatype shape = Polygon polygon | MultiPolygon "polygon list" | OtherGeometry

record geom =
  is_empty :: bool
  bounds :: "real \<times> real \<times> real \<times> real"
  shape :: shape

text \<open>\<open>g.bounds[2] - g.bounds[0]\<close> and \<open>g.bounds[3] - g.bounds[1]\<close>.\<close>

definition extent_w :: "geom \<Rightarrow> real" where
  "extent_w g = (case bounds g of (minx, miny, maxx, maxy) \<Rightarrow> maxx - minx)"

definition extent_h :: "geom \<Rightarrow> real" where
  "extent_h g = (case bounds g of (minx, miny, maxx, maxy) \<Rightarrow> maxy - miny)"

section \<open>GridScaler: the global scale\<close>

text \<open>
  \<open>draw_geoms_to_svg_scaled\<close>, scripts 02 (lines 88-94) and 04 (lines 144-150):
  \<^verbatim>\<open>
    inner_pad = 4
    inner = cell - inner_pad * 2
    max_w = max(g.bounds[2] - g.bounds[0] for g in geoms if not g.is_empty)
    max_h = max(g.bounds[3] - g.bounds[1] for g in geoms if not g.is_empty)
    global_scale = min(inner / max_w, inner / max_h)
  \<close>
\<close>

definition inner_pad :: int where
  "inner_pad = 4"

definition inner_of :: "int \<Rightarrow> int" where
  "inner_of cell = cell - inner_pad * 2"

definition global_scale :: "int \<Rightarrow> geom list \<Rightarrow> py_error + real" where
  "global_scale cell geoms =
     bindE (py_max (map extent_w (filter (\<lambda>g. \<not> is_empty g) geoms))) (\<lambda>max_w.
     bindE (py_max (map extent_h (filter (\<lambda>g. \<not> is_empty g) geoms))) (\<lambda>max_h.
     bindE (py_truediv (real_of_int (inner_of cell)) max_w) (\<lambda>sw.
     bindE (py_truediv (real_of_int (inner_of cell)) max_h) (\<lambda>sh.
     Inr (min sw sh)))))"

text \<open>
  Script 06 (lines 193-196) guards the division:
  \<^verbatim>\<open>
    global_scale = min(inner / max_w, inner / max_h) if max_w > 0 and max_h > 0 else 1.0
  \<close>
\<close>

definition global_scale_guarded :: "int \<Rightarrow> geom list \<Rightarrow> py_error + real" where
  "global_scale_guarded cell geoms =
     bindE (py_max (map extent_w (filter (\<lambda>g. \<not> is_empty g) geoms))) (\<lambda>max_w.
     bindE (py_max (map extent_h (filter (\<lambda>g. \<not> is_empty g) geoms))) (\<lambda>max_h.
     if max_w > 0 \<and> max_h > 0
     then bindE (py_truediv (real_of_int (inner_of cell)) max_w) (\<lambda>sw.
          bindE (py_truediv (real_of_int (inner_of cell)) max_h) (\<lambda>sh.
          Inr (min sw sh)))
     else Inr 1))"

text \<open>
  The contract of section 4.4 in the specification's words: the extents range over the
  non-empty geometries; a scale fits when every scaled extent stays within
  \<open>inner\<close>.
\<close>

definition spec_max_w :: "geom list \<Rightarrow> real" where
  "spec_max_w geoms = Max (extent_w ` {g \<in> set geoms. \<not> is_empty g})"

definition spec_max_h :: "geom list \<Rightarrow> real" where
  "spec_max_h geoms = Max (extent_h ` {g \<in> set geoms. \<not> is_empty g})"

definition fits :: "real \<Rightarrow> geom list \<Rightarrow> real \<Rightarrow> bool" where
  "fits inner geoms s =
     list_all (\<lambda>g. is_empty g \<or> (s * extent_w g \<le> inner \<and> s * extent_h g \<le> inner)) geoms"

text \<open>A bounding box of a non-empty geometry has its minimum below its maximum.\<close>

definition bounds_ok :: "geom \<Rightarrow> bool" where
  "bounds_ok g = (is_empty g \<or> (0 \<le> extent_w g \<and> 0 \<le> extent_h g))"

section \<open>PathEmitter\<close>

text \<open>
  \<open>path_from_polygon\<close> (identical in scripts 02, 04 and 06). The commands carry the
  transformed coordinates; the formatting of a coordinate to \<open>precision\<close> decimals
  (\<open>fmt\<close>) is text output and is not modelled.
\<close>

datatype path_cmd = M real real | L real real | Z

definition transform ::
  "real \<times> real \<times> real \<times> real \<Rightarrow> real \<Rightarrow> real \<Rightarrow> real \<Rightarrow> bool \<Rightarrow> point \<Rightarrow> point" where
  "transform bnds ox oy scale flip_y p =
     (case bnds of (minx, miny, maxx, maxy) \<Rightarrow>
      case p of (x, y) \<Rightarrow>
        let X = (x - minx) * scale + ox;
            Yraw = (y - miny) * scale + oy
        in (X, if flip_y then oy + (maxy - miny) * scale - (Yraw - oy) else Yraw))"

fun ring_loop :: "(point \<Rightarrow> point) \<Rightarrow> bool \<Rightarrow> point list \<Rightarrow> path_cmd list" where
  "ring_loop tr first [] = []"
| "ring_loop tr first (p # ps) =
     (case tr p of (X, Y) \<Rightarrow> (if first then M X Y else L X Y) # ring_loop tr False ps)"

definition ring_to_cmds :: "(point \<Rightarrow> point) \<Rightarrow> point list \<Rightarrow> path_cmd list" where
  "ring_to_cmds tr coords = ring_loop tr True coords @ [Z]"

definition path_from_polygon ::
  "polygon \<Rightarrow> real \<Rightarrow> real \<Rightarrow> real \<Rightarrow> real \<times> real \<times> real \<times> real \<Rightarrow> bool \<Rightarrow> path_cmd list" where
  "path_from_polygon poly ox oy scale bnds flip_y =
     ring_to_cmds (transform bnds ox oy scale flip_y) (exterior poly) @
     concat (map (ring_to_cmds (transform bnds ox oy scale flip_y)) (interiors poly))"

section \<open>GridRenderer: the drawing loop of script 02\<close>

text \<open>
  \<open>draw_geoms_to_svg_scaled(geoms, out_path, cols, cell, margin, ..., label)\<close>.
  The drawing is the list of elements added to \<open>dwg\<close>, in order, with the canvas
  size. \<open>dwg.save()\<close> is the last statement, so a run that raises writes nothing:
  an \<open>Inl\<close> result carries no element.
\<close>

datatype svg_elem = PathElem "path_cmd list" | TextElem int int int

record drawing =
  width :: int
  height :: int
  elements :: "svg_elem list"

text \<open>
  One iteration of \<open>for i, geom in enumerate(geoms)\<close>: the elements it adds. An
  empty geometry is skipped (\<open>continue\<close>), and so is a geometry that is neither a
  \<open>Polygon\<close> nor a \<open>MultiPolygon\<close>: for those the \<open>mapping(geom)\<close> test finds
  no polygon type either. The text element is the rank \<open>i + 1\<close> at its position.
\<close>

definition draw_one ::
  "int \<Rightarrow> int \<Rightarrow> int \<Rightarrow> bool \<Rightarrow> int \<Rightarrow> real \<Rightarrow> int \<Rightarrow> geom \<Rightarrow> svg_elem list" where
  "draw_one cols cell margin label font_size gscale i g =
     (if is_empty g then []
      else
        let r = i div cols; c = i mod cols;
            ox_cell = margin + c * cell + inner_pad;
            oy_cell = margin + r * cell + inner_pad
        in (case shape g of
              OtherGeometry \<Rightarrow> []
            | Polygon p \<Rightarrow>
                PathElem (path_from_polygon p (real_of_int ox_cell) (real_of_int oy_cell)
                            gscale (bounds g) True)
                # (if label then [TextElem (i + 1) (ox_cell + 2) (oy_cell + 2 + font_size)]
                   else [])
            | MultiPolygon ps \<Rightarrow>
                PathElem (concat (map (\<lambda>p. path_from_polygon p (real_of_int ox_cell)
                            (real_of_int oy_cell) gscale (bounds g) True) ps))
                # (if label then [TextElem (i + 1) (ox_cell + 2) (oy_cell + 2 + font_size)]
                   else [])))"

definition draw_loop ::
  "int \<Rightarrow> int \<Rightarrow> int \<Rightarrow> bool \<Rightarrow> int \<Rightarrow> real \<Rightarrow> geom list \<Rightarrow> svg_elem list" where
  "draw_loop cols cell margin label font_size gscale geoms =
     concat (map (\<lambda>(i, g). draw_one cols cell margin label font_size gscale (int i) g)
                 (enumerate 0 geoms))"

fun is_path :: "svg_elem \<Rightarrow> bool" where
  "is_path (PathElem d) = True"
| "is_path (TextElem rank x y) = False"

text \<open>\<open>rows = math.ceil(n / cols)\<close>: the true division raises when \<open>cols\<close> is 0.\<close>

definition rows_of :: "int \<Rightarrow> int \<Rightarrow> py_error + int" where
  "rows_of n cols =
     (if cols = 0 then Inl ZeroDivisionError
      else Inr (ceiling (real_of_int n / real_of_int cols)))"

definition draw_geoms_to_svg_scaled ::
  "int \<Rightarrow> int \<Rightarrow> int \<Rightarrow> bool \<Rightarrow> int \<Rightarrow> geom list \<Rightarrow> py_error + drawing" where
  "draw_geoms_to_svg_scaled cols cell margin label font_size geoms =
     (let n = int (length geoms) in
      if n = 0 then Inl SystemExit
      else
        bindE (rows_of n cols) (\<lambda>rows.
        bindE (global_scale cell geoms) (\<lambda>gscale.
        Inr \<lparr> width = margin * 2 + cols * cell,
              height = margin * 2 + rows * cell,
              elements = draw_loop cols cell margin label font_size gscale geoms \<rparr>)))"

section \<open>Classification rules\<close>

text \<open>
  A row of a GeoDataFrame (\<open>gdf.iloc[i]\<close>) is a mapping from column names to
  values; \<open>row.get(key)\<close> is \<open>None\<close> for a missing key. A missing value inside
  a column is \<open>None\<close> or the float NaN.
\<close>

datatype pyval = PNone | PStr string | PInt int | PFloat real | PNaN

type_synonym row = "string \<Rightarrow> pyval option"

definition row_get :: "row \<Rightarrow> string \<Rightarrow> pyval" where
  "row_get r key = (case r key of None \<Rightarrow> PNone | Some v \<Rightarrow> v)"

text \<open>
  A \<open>datetime\<close> is timezone-aware (an instant, in microseconds since the epoch) or
  naive (wall-clock fields, here as the instant they denote when read as UTC).
  Comparing an aware with a naive datetime raises \<open>TypeError\<close>.
\<close>

datatype datetime = Aware int | Naive int

definition replace_tz_utc_if_naive :: "datetime \<Rightarrow> datetime" where
  "replace_tz_utc_if_naive fd = (case fd of Naive t \<Rightarrow> Aware t | Aware t \<Rightarrow> Aware t)"

fun datetime_ge :: "datetime \<Rightarrow> datetime \<Rightarrow> py_error + bool" where
  "datetime_ge (Aware a) (Aware b) = Inr (a \<ge> b)"
| "datetime_ge (Naive a) (Naive b) = Inr (a \<ge> b)"
| "datetime_ge (Aware a) (Naive b) = Inl TypeError"
| "datetime_ge (Naive a) (Aware b) = Inl TypeError"

text \<open>
  \<open>parse_firedate\<close> (scripts 04 and 06). \<open>pd.to_datetime(val, utc=True)\<close> is
  pandas' parser, a parameter here: it raises, returns \<open>NaT\<close> (\<open>Inr None\<close>) or
  returns a timestamp.
  \<^verbatim>\<open>
    if val is None or val == "":
        return None
    try:
        ts = pd.to_datetime(val, utc=True)
        if pd.isna(ts):
            return None
        return ts.to_pydatetime()
    except Exception:
        return None
  \<close>
\<close>

definition parse_firedate :: "(pyval \<Rightarrow> py_error + datetime option) \<Rightarrow> pyval \<Rightarrow> datetime option" where
  "parse_firedate to_datetime val =
     (if val = PNone \<or> val = PStr [] then None
      else case to_datetime val of
             Inl e \<Rightarrow> None
           | Inr None \<Rightarrow> None
           | Inr (Some ts) \<Rightarrow> Some ts)"

text \<open>
  \<open>int(x)\<close>: \<open>TypeError\<close> on \<open>None\<close>, \<open>ValueError\<close> on NaN and on a string
  that is not an integer literal, truncation towards zero on a float. The parsing of
  a string is Python's builtin, a parameter here.
\<close>

definition py_int :: "(string \<Rightarrow> int option) \<Rightarrow> pyval \<Rightarrow> py_error + int" where
  "py_int int_of_str v =
     (case v of
        PNone \<Rightarrow> Inl TypeError
      | PStr s \<Rightarrow> (case int_of_str s of None \<Rightarrow> Inl ValueError | Some n \<Rightarrow> Inr n)
      | PInt n \<Rightarrow> Inr n
      | PFloat x \<Rightarrow> Inr (if 0 \<le> x then floor x else ceiling x)
      | PNaN \<Rightarrow> Inl ValueError)"

definition COLOR_2025 :: string where
  "COLOR_2025 = ''#fac4c5''"

definition COLOR_RECENT :: string where
  "COLOR_RECENT = ''#a80127''"

definition COLOR_DEFAULT :: string where
  "COLOR_DEFAULT = ''#d8d0d0''"

definition COLOR_ROSA :: string where
  "COLOR_ROSA = ''#fac4c5''"

definition COLOR_GRANATE :: string where
  "COLOR_GRANATE = ''#a80127''"

text \<open>
  \<open>pick_color\<close> (script 04, lines 105-121):
  \<^verbatim>\<open>
    fd = parse_firedate(row.get("firedate"))
    if fd is not None:
        if fd.tzinfo is None:
            fd = fd.replace(tzinfo=timezone.utc)
        if fd >= cutoff_dt_utc:
            return COLOR_RECENT
    if int(row.get("fireyear")) == 2025:
        return COLOR_2025
    return COLOR_DEFAULT
  \<close>
\<close>

definition year_rule :: "(string \<Rightarrow> int option) \<Rightarrow> row \<Rightarrow> py_error + string" where
  "year_rule int_of_str r =
     bindE (py_int int_of_str (row_get r ''fireyear'')) (\<lambda>y.
     if y = 2025 then Inr COLOR_2025 else Inr COLOR_DEFAULT)"

definition pick_color ::
  "(pyval \<Rightarrow> py_error + datetime option) \<Rightarrow> (string \<Rightarrow> int option) \<Rightarrow> row \<Rightarrow> datetime
     \<Rightarrow> py_error + string" where
  "pick_color to_datetime int_of_str r cutoff_dt_utc =
     (case parse_firedate to_datetime (row_get r ''firedate'') of
        Some fd \<Rightarrow>
          bindE (datetime_ge (replace_tz_utc_if_naive fd) cutoff_dt_utc) (\<lambda>recent.
          if recent then Inr COLOR_RECENT else year_rule int_of_str r)
      | None \<Rightarrow> year_rule int_of_str r)"

text \<open>
  \<open>pick_color_2025\<close> (script 06, lines 145-158): the same date test, then
  \<open>COLOR_ROSA\<close>.
\<close>

definition pick_color_2025 ::
  "(pyval \<Rightarrow> py_error + datetime option) \<Rightarrow> row \<Rightarrow> datetime \<Rightarrow> py_error + string" where
  "pick_color_2025 to_datetime r cutoff_dt_utc =
     (case parse_firedate to_datetime (row_get r ''firedate'') of
        Some fd \<Rightarrow>
          bindE (datetime_ge (replace_tz_utc_if_naive fd) cutoff_dt_utc) (\<lambda>recent.
          if recent then Inr COLOR_GRANATE else Inr COLOR_ROSA)
      | None \<Rightarrow> Inr COLOR_ROSA)"

text \<open>
  The date attribute is missing or unparseable: it is absent, \<open>None\<close>, the empty
  string, or pandas raises on it or returns \<open>NaT\<close>.
\<close>

definition date_unusable :: "(pyval \<Rightarrow> py_error + datetime option) \<Rightarrow> pyval \<Rightarrow> bool" where
  "date_unusable to_datetime val =
     (val = PNone \<or> val = PStr [] \<or>
      (case to_datetime val of Inl e \<Rightarrow> True | Inr None \<Rightarrow> True | Inr (Some ts) \<Rightarrow> False))"

section \<open>GeometryRepair\<close>

text \<open>
  \<open>make_valid\<close> (scripts 02, 04, 06). shapely's \<open>make_valid\<close> and \<open>buffer(0)\<close> are
  parameters. Each \<open>except Exception\<close> catches what derives from \<open>Exception\<close> and
  lets anything else propagate.
  \<^verbatim>\<open>
    try:
        return _make_valid(geom)
    except Exception:
        try:
            return geom.buffer(0)
        except Exception:
            return geom
  \<close>
\<close>

definition make_valid :: "('g \<Rightarrow> py_error + 'g) \<Rightarrow> ('g \<Rightarrow> py_error + 'g) \<Rightarrow> 'g \<Rightarrow> py_error + 'g" where
  "make_valid shapely_make_valid buffer0 geom =
     (case shapely_make_valid geom of
        Inr v \<Rightarrow> Inr v
      | Inl e \<Rightarrow>
          if is_Exception e
          then (case buffer0 geom of
                  Inr v \<Rightarrow> Inr v
                | Inl e' \<Rightarrow> if is_Exception e' then Inr geom else Inl e')
          else Inl e)"

text \<open>A call that fails, if at all, with an exception that derives from \<open>Exception\<close>.\<close>

definition fails_with_Exception_only :: "py_error + 'a \<Rightarrow> bool" where
  "fails_with_Exception_only r = (case r of Inl e \<Rightarrow> is_Exception e | Inr v \<Rightarrow> True)"

text \<open>
  \<open>safe_make_valid\<close> (scripts 11, 12, 13) applies \<open>buffer(0)\<close> to the geometry
  column, outside any \<open>try\<close>:
  \<^verbatim>\<open>
    gdf = gdf.copy()
    gdf["geometry"] = gdf["geometry"].buffer(0)
    return gdf
  \<close>
\<close>

fun mapE :: "('a \<Rightarrow> py_error + 'b) \<Rightarrow> 'a list \<Rightarrow> py_error + 'b list" where
  "mapE f [] = Inr []"
| "mapE f (x # xs) = bindE (f x) (\<lambda>y. bindE (mapE f xs) (\<lambda>ys. Inr (y # ys)))"

definition safe_make_valid :: "('g \<Rightarrow> py_error + 'g) \<Rightarrow> 'g list \<Rightarrow> py_error + 'g list" where
  "safe_make_valid buffer0 geometry_column = mapE buffer0 geometry_column"

section \<open>Float columns and the minimum-area filter\<close>

text \<open>
  A value of a float64 column of a data frame: a number, NaN (the missing value) or
  an infinity. A comparison with NaN is false; pandas divides by zero without
  raising (0/0 is NaN, x/0 is an infinity).
\<close>

datatype pyfloat = Num real | NaN | PosInf | NegInf

fun float_ge :: "pyfloat \<Rightarrow> real \<Rightarrow> bool" where
  "float_ge (Num x) m = (x \<ge> m)"
| "float_ge NaN m = False"
| "float_ge PosInf m = True"
| "float_ge NegInf m = False"

definition float_div :: "real \<Rightarrow> real \<Rightarrow> pyfloat" where
  "float_div a b =
     (if b \<noteq> 0 then Num (a / b)
      else if a = 0 then NaN
      else if a > 0 then PosInf else NegInf)"

fun times_100 :: "pyfloat \<Rightarrow> pyfloat" where
  "times_100 (Num x) = Num (x * 100)"
| "times_100 NaN = NaN"
| "times_100 PosInf = PosInf"
| "times_100 NegInf = NegInf"

text \<open>
  A GeoDataFrame of events: the column names, and per row the value of every float
  column and the geometry. The geometry type is a parameter, and so is the measurement
  \<open>area_m2\<close> (\<open>to_crs(epsg=3035)\<close>, then \<open>geometry.area\<close>).
\<close>

record 'g feature =
  props :: "string \<Rightarrow> pyfloat"
  geometry :: 'g

record 'g frame =
  columns :: "string list"
  rows :: "'g feature list"

text \<open>
  \<open>add_area_ha\<close> (script 11, lines 31-36): the column \<open>out_col\<close> gets the measured
  area in hectares of every row.
\<close>

definition add_area_ha :: "('g \<Rightarrow> real) \<Rightarrow> 'g frame \<Rightarrow> string \<Rightarrow> 'g frame" where
  "add_area_ha area_m2 gdf_ll out_col =
     gdf_ll \<lparr> columns := (if out_col \<in> set (columns gdf_ll) then columns gdf_ll
                           else columns gdf_ll @ [out_col]),
              rows := map (\<lambda>r. r \<lparr> props := (props r)(out_col := Num (area_m2 (geometry r) / 10000)) \<rparr>)
                          (rows gdf_ll) \<rparr>"

text \<open>
  \<open>filter_fires_min_ha\<close> (script 11, lines 38-50; scripts 12 and 13 do the same,
  script 13 naming the computed column \<open>area_ha_calc\<close>):
  \<^verbatim>\<open>
    area_field = None
    for cand in ["area_ha", "AREA_HA", "areaHA", "area", "ha"]:
        if cand in fires.columns:
            area_field = cand
            break
    if area_field is None:
        fires = add_area_ha(fires, out_col="area_ha_geom")
        area_field = "area_ha_geom"
    return fires[fires[area_field] >= min_ha].copy()
  \<close>
\<close>

definition area_candidates :: "string list" where
  "area_candidates = [''area_ha'', ''AREA_HA'', ''areaHA'', ''area'', ''ha'']"

definition find_area_field :: "'g frame \<Rightarrow> string option" where
  "find_area_field fires = find (\<lambda>cand. cand \<in> set (columns fires)) area_candidates"

definition select_ge :: "'g frame \<Rightarrow> string \<Rightarrow> real \<Rightarrow> 'g frame" where
  "select_ge fires area_field min_ha =
     fires \<lparr> rows := filter (\<lambda>r. float_ge (props r area_field) min_ha) (rows fires) \<rparr>"

definition filter_fires_min_ha :: "('g \<Rightarrow> real) \<Rightarrow> 'g frame \<Rightarrow> real \<Rightarrow> 'g frame" where
  "filter_fires_min_ha area_m2 fires min_ha =
     (case find_area_field fires of
        None \<Rightarrow> select_ge (add_area_ha area_m2 fires ''area_ha_geom'') ''area_ha_geom'' min_ha
      | Some area_field \<Rightarrow> select_ge fires area_field min_ha)"

section \<open>Dissolver and OverlayAggregator\<close>

text \<open>
  In the metric frame (EPSG:3035) a geometry is modelled as a finite set of raster
  cells of one square metre: its area is the number of cells, the union and the
  intersection of geometries are those of sets, and a region is valid as it is, so
  \<open>buffer(0)\<close> and \<open>to_crs\<close> leave it unchanged. An intersection without a cell is
  what \<open>keep_geom_type=True\<close> discards (nothing, a point or a line).
\<close>

type_synonym region = "(int \<times> int) fset"

definition region_area_m2 :: "region \<Rightarrow> real" where
  "region_area_m2 g = real (fcard g)"

primrec union_all :: "region list \<Rightarrow> region" where
  "union_all [] = {||}"
| "union_all (g # gs) = g |\<union>| union_all gs"

record boundary =
  NAMEUNIT :: string
  boundary_geometry :: region

text \<open>
  \<open>ccaa.dissolve(by="NAMEUNIT", as_index=False)\<close>: one row per label, the labels
  sorted, the geometry the union of the group's geometries.
\<close>

definition dissolve :: "boundary list \<Rightarrow> boundary list" where
  "dissolve ccaa =
     map (\<lambda>l. \<lparr> NAMEUNIT = l,
                 boundary_geometry =
                   union_all (map boundary_geometry (filter (\<lambda>b. NAMEUNIT b = l) ccaa)) \<rparr>)
         (sort (remdups (map NAMEUNIT ccaa)))"

text \<open>
  \<open>gpd.overlay(ccaa_m, fires_m, how="intersection", keep_geom_type=True)\<close>: one piece
  for every pair of a boundary and an event whose geometries share area, carrying the
  boundary's label; then \<open>inter["burn_ha"] = inter.geometry.area / 10000.0\<close>.
\<close>

definition overlay_intersection :: "boundary list \<Rightarrow> region feature list \<Rightarrow> (string \<times> region) list" where
  "overlay_intersection ccaa_m fires_m =
     concat (map (\<lambda>b. concat (map (\<lambda>e.
        if boundary_geometry b |\<inter>| geometry e = {||} then []
        else [(NAMEUNIT b, boundary_geometry b |\<inter>| geometry e)]) fires_m)) ccaa_m)"

definition burn_pieces :: "boundary list \<Rightarrow> region feature list \<Rightarrow> (string \<times> real) list" where
  "burn_pieces bs es = map (\<lambda>p. (fst p, region_area_m2 (snd p) / 10000)) (overlay_intersection bs es)"

text \<open>
  \<open>inter.groupby("NAMEUNIT", as_index=False)["burn_ha"].sum()\<close>: one row per key, the
  keys sorted, with the sum of the key's values.
\<close>

definition key_total :: "(string \<times> real) list \<Rightarrow> string \<Rightarrow> real" where
  "key_total kv k = sum_list (map snd (filter (\<lambda>p. fst p = k) kv))"

definition groupby_sum :: "(string \<times> real) list \<Rightarrow> (string \<times> real) list" where
  "groupby_sum kv = map (\<lambda>k. (k, key_total kv k)) (sort (remdups (map fst kv)))"

text \<open>
  \<open>pd.merge(surface_df, burn_by_ccaa, on="NAMEUNIT", how="left")\<close>: every left row, in
  order, once per matching right row, or once with a missing value when none matches.
\<close>

definition merge_left ::
  "(string \<times> real) list \<Rightarrow> (string \<times> real) list \<Rightarrow> (string \<times> real \<times> real option) list" where
  "merge_left surface_df burn_by =
     concat (map (\<lambda>(k, total_ha).
        case filter (\<lambda>p. fst p = k) burn_by of
          [] \<Rightarrow> [(k, total_ha, None)]
        | m # ms \<Rightarrow> map (\<lambda>p. (k, total_ha, Some (snd p))) (m # ms)) surface_df)"

text \<open>A row of \<open>out\<close>; \<open>unit_name\<close> is its \<open>NAMEUNIT\<close> column.\<close>

record result_row =
  unit_name :: string
  area_total_ha :: real
  burn_ha :: real
  pct :: pyfloat

text \<open>\<open>.fillna({"burn_ha": 0.0})\<close> and \<open>out["pct"] = (out["burn_ha"] / out["area_total_ha"]) * 100.0\<close>.\<close>

definition fill_pct :: "string \<times> real \<times> real option \<Rightarrow> result_row" where
  "fill_pct m =
     (case m of (k, total_ha, b) \<Rightarrow>
        let burn = (case b of None \<Rightarrow> 0 | Some x \<Rightarrow> x)
        in \<lparr> unit_name = k, area_total_ha = total_ha, burn_ha = burn,
             pct = times_100 (float_div burn total_ha) \<rparr>)"

text \<open>
  Steps 3 to 5 of \<open>main\<close> (script 11, lines 86-104; script 12, lines 76-89), from the
  dissolved boundaries and the filtered events. The last statement,
  \<open>out.sort_values("pct", ascending=False)\<close>, is pandas' sort with its default
  algorithm; it is the parameter \<open>sort_values_pct\<close>.
\<close>

definition burn_table ::
  "(result_row list \<Rightarrow> result_row list) \<Rightarrow> boundary list \<Rightarrow> region feature list \<Rightarrow> result_row list" where
  "burn_table sort_values_pct ccaa_diss fires_big =
     (let surface_df = map (\<lambda>b. (NAMEUNIT b, region_area_m2 (boundary_geometry b) / 10000)) ccaa_diss;
          inter = burn_pieces ccaa_diss fires_big;
          burn_by_ccaa = groupby_sum inter;
          out = map fill_pct (merge_left surface_df burn_by_ccaa)
      in sort_values_pct out)"

text \<open>\<open>main\<close> from the loaded frames: dissolve, filter, then the steps above.\<close>

definition main ::
  "(result_row list \<Rightarrow> result_row list) \<Rightarrow> boundary list \<Rightarrow> region frame \<Rightarrow> real \<Rightarrow> result_row list" where
  "main sort_values_pct ccaa fires min_ha =
     burn_table sort_values_pct (dissolve ccaa)
       (rows (filter_fires_min_ha region_area_m2 fires min_ha))"

text \<open>
  The right-hand side of the totals property of section 8 in the specification's
  words: per qualifying event, the area in hectares of its intersection with the union
  of all boundaries. Boundaries are pairwise disjoint when no two share a cell.
\<close>

definition spec_event_area_ha :: "boundary list \<Rightarrow> region feature \<Rightarrow> real" where
  "spec_event_area_ha ccaa_diss e =
     region_area_m2 (geometry e |\<inter>| union_all (map boundary_geometry ccaa_diss)) / 10000"

primrec pairwise_disjoint :: "region list \<Rightarrow> bool" where
  "pairwise_disjoint [] = True"
| "pairwise_disjoint (g # gs) = (list_all (\<lambda>h. g |\<inter>| h = {||}) gs \<and> pairwise_disjoint gs)"

text \<open>The area one boundary shares with the events, summed over the events.\<close>

definition pair_burn_ha :: "region feature list \<Rightarrow> boundary \<Rightarrow> real" where
  "pair_burn_ha es b =
     sum_list (map (\<lambda>e. region_area_m2 (boundary_geometry b |\<inter>| geometry e) / 10000) es)"

section \<open>Example inputs\<close>

text \<open>
  Two squares of side 10 and 5 (scenario 1 of the specification), an empty geometry
  (shapely reports NaN bounds for it; the value is never read), and a sliver: a
  non-empty polygon whose vertices share one x coordinate, so its width is zero.
  \<open>sliver_line\<close> is the line shapely's \<open>make_valid\<close> returns for the sliver: not
  empty, the same bounds, no polygon.
\<close>

definition square10 :: geom where
  "square10 = \<lparr> is_empty = False, bounds = (0, 0, 10, 10),
       shape = Polygon \<lparr> exterior = [(0, 0), (10, 0), (10, 10), (0, 10), (0, 0)],
                         interiors = [] \<rparr> \<rparr>"

definition square5 :: geom where
  "square5 = \<lparr> is_empty = False, bounds = (20, 20, 25, 25),
       shape = Polygon \<lparr> exterior = [(20, 20), (25, 20), (25, 25), (20, 25), (20, 20)],
                         interiors = [] \<rparr> \<rparr>"

definition empty_geom :: geom where
  "empty_geom = \<lparr> is_empty = True, bounds = (0, 0, 0, 0), shape = Polygon \<lparr> exterior = [], interiors = [] \<rparr> \<rparr>"

definition sliver :: geom where
  "sliver = \<lparr> is_empty = False, bounds = (3, 0, 3, 1),
       shape = Polygon \<lparr> exterior = [(3, 0), (3, 1), (3, 0), (3, 0)], interiors = [] \<rparr> \<rparr>"

definition sliver_line :: geom where
  "sliver_line = \<lparr> is_empty = False, bounds = (3, 0, 3, 1), shape = OtherGeometry \<rparr>"

text \<open>
  Stand-ins for the library functions on the inputs of the examples: pandas' parser
  on two date strings (the cutoff 2025-08-08T00:00:00Z is the instant
  1754611200000000) and Python's \<open>int\<close> on one literal. The two shapely primitives
  act on the sliver as shapely does (\<open>make_valid\<close> returns the line, \<open>buffer(0)\<close>
  the empty polygon) and leave the other example geometries, which are valid, as they
  are. \<open>failing_make_valid\<close> is a validity transform that raises on every geometry,
  as on an installation whose GEOS has no such operation.
\<close>

definition example_to_datetime :: "pyval \<Rightarrow> py_error + datetime option" where
  "example_to_datetime v =
     (if v = PStr ''2025-08-08T00:00:00Z'' then Inr (Some (Aware 1754611200000000))
      else if v = PStr ''2025-08-07T23:59:59Z'' then Inr (Some (Aware 1754611199000000))
      else if v = PNaN then Inr None
      else Inl ValueError)"

definition example_int_of_str :: "string \<Rightarrow> int option" where
  "example_int_of_str s = (if s = ''2025'' then Some 2025 else None)"

definition cutoff_2025_08_08 :: datetime where
  "cutoff_2025_08_08 = Aware 1754611200000000"

definition example_shapely_make_valid :: "geom \<Rightarrow> py_error + geom" where
  "example_shapely_make_valid g = (if g = sliver then Inr sliver_line else Inr g)"

definition example_buffer0 :: "geom \<Rightarrow> py_error + geom" where
  "example_buffer0 g = (if g = sliver then Inr empty_geom else Inr g)"

definition failing_make_valid :: "geom \<Rightarrow> py_error + geom" where
  "failing_make_valid g = Inl GEOSException"

text \<open>
  Events and boundaries on a small raster. \<open>event_a\<close> declares 100 ha and covers two
  cells; \<open>event_nan\<close> has no declared area; \<open>fires_2025\<close> has the column
  \<open>area_ha\<close>. \<open>west\<close> and \<open>east\<close> are disjoint boundaries, \<open>overlap\<close> shares a
  cell with \<open>west\<close>, and \<open>islet\<close> has no cell at all.
\<close>

definition event_a :: "region feature" where
  "event_a = \<lparr> props = (\<lambda>c. NaN)(''area_ha'' := Num 100), geometry = {|(0, 0), (1, 0)|} \<rparr>"

definition event_nan :: "region feature" where
  "event_nan = \<lparr> props = (\<lambda>c. NaN), geometry = {|(0, 1)|} \<rparr>"

definition fires_2025 :: "region frame" where
  "fires_2025 = \<lparr> columns = [''area_ha''], rows = [event_nan, event_a] \<rparr>"

definition west :: boundary where
  "west = \<lparr> NAMEUNIT = ''West'', boundary_geometry = {|(0, 0), (0, 1)|} \<rparr>"

definition east :: boundary where
  "east = \<lparr> NAMEUNIT = ''East'', boundary_geometry = {|(1, 0), (1, 1)|} \<rparr>"

definition overlap :: boundary where
  "overlap = \<lparr> NAMEUNIT = ''Overlap'', boundary_geometry = {|(0, 0)|} \<rparr>"

definition islet :: boundary where
  "islet = \<lparr> NAMEUNIT = ''Islet'', boundary_geometry = {||} \<rparr>"

text \<open>
  A stand-in for \<open>sort_values("pct", ascending=False)\<close>: an insertion sort, descending,
  NaN last; and a boundary that no event of the examples touches.
\<close>

fun pct_before :: "pyfloat \<Rightarrow> pyfloat \<Rightarrow> bool" where
  "pct_before a NaN = True"
| "pct_before NaN b = False"
| "pct_before PosInf b = True"
| "pct_before a PosInf = False"
| "pct_before a NegInf = True"
| "pct_before NegInf b = False"
| "pct_before (Num x) (Num y) = (x \<ge> y)"

fun insert_row :: "result_row \<Rightarrow> result_row list \<Rightarrow> result_row list" where
  "insert_row r [] = [r]"
| "insert_row r (x # xs) =
     (if pct_before (pct r) (pct x) then r # x # xs else x # insert_row r xs)"

definition example_sort_values :: "result_row list \<Rightarrow> result_row list" where
  "example_sort_values xs = foldr insert_row xs []"

definition north :: boundary where
  "north = \<lparr> NAMEUNIT = ''North'', boundary_geometry = {|(0, 5), (1, 5)|} \<rparr>"

section \<open>GridScaler properties\<close>

lemma fold_max_Max: "fold max xs (x::real) = Max (set (x # xs))"
  by (rule Max.set_eq_fold [symmetric])

lemma py_max_Inr:
  assumes "xs \<noteq> []"
  shows "py_max xs = Inr (Max (set xs))"
proof (cases xs)
  case Nil
  with assms show ?thesis by simp
next
  case (Cons y ys)
  then show ?thesis by (simp only: py_max.simps fold_max_Max)
qed

lemma filter_nonempty_iff:
  "filter (\<lambda>g. \<not> is_empty g) geoms \<noteq> [] \<longleftrightarrow> (\<exists>g\<in>set geoms. \<not> is_empty g)"
  by (simp add: filter_empty_conv)

lemma max_w_eq:
  "Max (set (map extent_w (filter (\<lambda>g. \<not> is_empty g) geoms))) = spec_max_w geoms"
  by (simp add: spec_max_w_def)

lemma max_h_eq:
  "Max (set (map extent_h (filter (\<lambda>g. \<not> is_empty g) geoms))) = spec_max_h geoms"
  by (simp add: spec_max_h_def)

lemma global_scale_eq:
  assumes ne: "\<exists>g\<in>set geoms. \<not> is_empty g"
    and w: "spec_max_w geoms \<noteq> 0" and h: "spec_max_h geoms \<noteq> 0"
  shows "global_scale cell geoms =
           Inr (min (real_of_int (inner_of cell) / spec_max_w geoms)
                    (real_of_int (inner_of cell) / spec_max_h geoms))"
proof -
  from ne have f: "filter (\<lambda>g. \<not> is_empty g) geoms \<noteq> []"
    by (simp add: filter_nonempty_iff)
  have "map extent_w (filter (\<lambda>g. \<not> is_empty g) geoms) \<noteq> []"
    using f by simp
  from py_max_Inr [OF this]
  have mw: "py_max (map extent_w (filter (\<lambda>g. \<not> is_empty g) geoms)) = Inr (spec_max_w geoms)"
    by (simp only: max_w_eq)
  have "map extent_h (filter (\<lambda>g. \<not> is_empty g) geoms) \<noteq> []"
    using f by simp
  from py_max_Inr [OF this]
  have mh: "py_max (map extent_h (filter (\<lambda>g. \<not> is_empty g) geoms)) = Inr (spec_max_h geoms)"
    by (simp only: max_h_eq)
  show ?thesis
    using w h by (simp add: global_scale_def mw mh bindE_def py_truediv_def)
qed

lemma spec_max_w_ge:
  assumes "g \<in> set geoms" "\<not> is_empty g"
  shows "extent_w g \<le> spec_max_w geoms"
  unfolding spec_max_w_def using assms by (intro Max_ge) auto

lemma spec_max_h_ge:
  assumes "g \<in> set geoms" "\<not> is_empty g"
  shows "extent_h g \<le> spec_max_h geoms"
  unfolding spec_max_h_def using assms by (intro Max_ge) auto

lemma spec_max_w_attained:
  assumes "\<exists>g\<in>set geoms. \<not> is_empty g"
  shows "\<exists>g\<in>set geoms. \<not> is_empty g \<and> extent_w g = spec_max_w geoms"
proof -
  let ?S = "extent_w ` {g \<in> set geoms. \<not> is_empty g}"
  have "finite ?S" by simp
  moreover from assms have "?S \<noteq> {}" by auto
  ultimately have "Max ?S \<in> ?S" by (rule Max_in)
  then show ?thesis unfolding spec_max_w_def by auto
qed

lemma spec_max_h_attained:
  assumes "\<exists>g\<in>set geoms. \<not> is_empty g"
  shows "\<exists>g\<in>set geoms. \<not> is_empty g \<and> extent_h g = spec_max_h geoms"
proof -
  let ?S = "extent_h ` {g \<in> set geoms. \<not> is_empty g}"
  have "finite ?S" by simp
  moreover from assms have "?S \<noteq> {}" by auto
  ultimately have "Max ?S \<in> ?S" by (rule Max_in)
  then show ?thesis unfolding spec_max_h_def by auto
qed

lemma scaled_extent_le:
  fixes s :: real
  assumes "0 \<le> a" "a \<le> m" "0 < m" "0 \<le> i" "s \<le> i / m"
  shows "s * a \<le> i"
proof (cases "0 \<le> s")
  case True
  have "s * a \<le> s * m" using True assms(2) by (rule mult_left_mono [rotated])
  also have "s * m \<le> i" using assms(3,5) by (simp add: pos_le_divide_eq)
  finally show ?thesis .
next
  case False
  then have "s * a \<le> 0" using assms(1) by (simp add: mult_le_0_iff)
  with assms(4) show ?thesis by simp
qed

lemma fits_iff:
  assumes ne: "\<exists>g\<in>set geoms. \<not> is_empty g"
    and ok: "list_all bounds_ok geoms"
    and w: "0 < spec_max_w geoms" and h: "0 < spec_max_h geoms"
    and i: "0 \<le> inner"
  shows "fits inner geoms s \<longleftrightarrow> s \<le> min (inner / spec_max_w geoms) (inner / spec_max_h geoms)"
proof
  assume fit: "fits inner geoms s"
  from spec_max_w_attained [OF ne] obtain gw where
    gw: "gw \<in> set geoms" "\<not> is_empty gw" "extent_w gw = spec_max_w geoms" by blast
  from spec_max_h_attained [OF ne] obtain gh where
    gh: "gh \<in> set geoms" "\<not> is_empty gh" "extent_h gh = spec_max_h geoms" by blast
  from fit gw have "s * spec_max_w geoms \<le> inner"
    by (auto simp: fits_def list_all_iff)
  then have a: "s \<le> inner / spec_max_w geoms" using w by (simp add: pos_le_divide_eq)
  from fit gh have "s * spec_max_h geoms \<le> inner"
    by (auto simp: fits_def list_all_iff)
  then have b: "s \<le> inner / spec_max_h geoms" using h by (simp add: pos_le_divide_eq)
  from a b show "s \<le> min (inner / spec_max_w geoms) (inner / spec_max_h geoms)" by simp
next
  assume le: "s \<le> min (inner / spec_max_w geoms) (inner / spec_max_h geoms)"
  show "fits inner geoms s"
    unfolding fits_def list_all_iff
  proof (intro ballI)
    fix g assume g: "g \<in> set geoms"
    show "is_empty g \<or> (s * extent_w g \<le> inner \<and> s * extent_h g \<le> inner)"
    proof (cases "is_empty g")
      case True then show ?thesis by simp
    next
      case False
      from ok g False have nn: "0 \<le> extent_w g" "0 \<le> extent_h g"
        by (auto simp: list_all_iff bounds_ok_def)
      have "s * extent_w g \<le> inner"
        using nn(1) spec_max_w_ge [OF g False] w i le by (intro scaled_extent_le) auto
      moreover have "s * extent_h g \<le> inner"
        using nn(2) spec_max_h_ge [OF g False] h i le by (intro scaled_extent_le) auto
      ultimately show ?thesis by simp
    qed
  qed
qed

lemma spec_max_w_fold:
  "spec_max_w (g # gs) = Max (set (map extent_w (filter (\<lambda>g. \<not> is_empty g) (g # gs))))"
  by (simp only: max_w_eq)

lemma spec_max_h_fold:
  "spec_max_h (g # gs) = Max (set (map extent_h (filter (\<lambda>g. \<not> is_empty g) (g # gs))))"
  by (simp only: max_h_eq)

text \<open>
  C1 (as amended). Whenever the largest width and the largest height among the
  non-empty geometries are positive, the renderer's global scale is
  \<open>min (inner / max_w) (inner / max_h)\<close> with \<open>inner = cell - 2 * pad\<close>; and
  when \<open>inner\<close> is not negative this scale fits every non-empty geometry and every
  scale that fits is at most it, so it is the unique maximum fitting scale.
\<close>

theorem global_scale_max_fitting:
  assumes "\<exists>g\<in>set geoms. \<not> is_empty g"
    and "list_all bounds_ok geoms"
    and "0 < spec_max_w geoms" and "0 < spec_max_h geoms"
  shows "\<exists>gs. global_scale cell geoms = Inr gs
           \<and> gs = min (real_of_int (cell - 2 * inner_pad) / spec_max_w geoms)
                      (real_of_int (cell - 2 * inner_pad) / spec_max_h geoms)
           \<and> (0 \<le> cell - 2 * inner_pad \<longrightarrow>
                fits (real_of_int (cell - 2 * inner_pad)) geoms gs
                \<and> (\<forall>s. fits (real_of_int (cell - 2 * inner_pad)) geoms s \<longrightarrow> s \<le> gs))"
proof -
  let ?inner = "real_of_int (cell - 2 * inner_pad)"
  let ?gs = "min (?inner / spec_max_w geoms) (?inner / spec_max_h geoms)"
  have i: "inner_of cell = cell - 2 * inner_pad" by (simp add: inner_of_def)
  have eq: "global_scale cell geoms = Inr ?gs"
    using global_scale_eq [OF assms(1), of cell] assms(3,4) by (simp add: i)
  have mx: "fits ?inner geoms ?gs \<and> (\<forall>s. fits ?inner geoms s \<longrightarrow> s \<le> ?gs)"
    if "0 \<le> cell - 2 * inner_pad"
  proof -
    from that have "0 \<le> ?inner" by simp
    from fits_iff [OF assms(1,2,3,4) this] show ?thesis by simp
  qed
  from eq mx show ?thesis by blast
qed

theorem global_scale_max_fitting_witness:
  "global_scale 108 [square10, empty_geom, square5] = Inr 10
   \<and> fits 100 [square10, empty_geom, square5] 10
   \<and> \<not> fits 100 [square10, empty_geom, square5] 11"
proof -
  let ?G = "[square10, empty_geom, square5]"
  have e: "is_empty empty_geom" "\<not> is_empty square10" "\<not> is_empty square5"
    by (simp_all add: empty_geom_def square10_def square5_def)
  have x: "extent_w square10 = 10" "extent_h square10 = 10"
          "extent_w square5 = 5" "extent_h square5 = 5"
    by (simp_all add: extent_w_def extent_h_def square10_def square5_def)
  have w: "spec_max_w ?G = 10" by (simp add: spec_max_w_fold e x)
  have h: "spec_max_h ?G = 10" by (simp add: spec_max_h_fold e x)
  have ne: "\<exists>g\<in>set ?G. \<not> is_empty g" using e by simp
  have ok: "list_all bounds_ok ?G" by (simp add: bounds_ok_def e x)
  from global_scale_max_fitting [OF ne ok, of 108] w h
  have "global_scale 108 ?G = Inr 10
        \<and> fits 100 ?G 10 \<and> (\<forall>s. fits 100 ?G s \<longrightarrow> s \<le> 10)"
    by (simp add: inner_pad_def)
  then show ?thesis by fastforce
qed

text \<open>
  The claim as stated fails on a collection whose only non-empty geometry has zero
  width: the division raises, so there is no scale.
\<close>

theorem global_scale_zero_width_counterexample:
  "\<not> is_empty sliver \<and> global_scale 64 [sliver] = Inl ZeroDivisionError"
  by (simp add: global_scale_def bindE_def py_truediv_def sliver_def extent_w_def extent_h_def)

section \<open>GridRenderer properties\<close>

lemma nonempty_filter_idem:
  "filter (\<lambda>g. \<not> is_empty g) (filter (\<lambda>g. \<not> is_empty g) geoms) = filter (\<lambda>g. \<not> is_empty g) geoms"
  by simp

lemma global_scale_ignores_empty:
  "global_scale cell (filter (\<lambda>g. \<not> is_empty g) geoms) = global_scale cell geoms"
  by (simp only: global_scale_def nonempty_filter_idem)

lemma global_scale_guarded_ignores_empty:
  "global_scale_guarded cell (filter (\<lambda>g. \<not> is_empty g) geoms) = global_scale_guarded cell geoms"
  by (simp only: global_scale_guarded_def nonempty_filter_idem)

lemma global_scale_all_empty:
  assumes "list_all is_empty geoms"
  shows "global_scale cell geoms = Inl ValueError"
proof -
  from assms have "filter (\<lambda>g. \<not> is_empty g) geoms = []"
    by (simp add: filter_empty_conv list_all_iff)
  then show ?thesis by (simp add: global_scale_def bindE_def)
qed

lemma draw_one_paths:
  "length (filter is_path (draw_one cols cell margin label font_size gscale i g)) =
     (if \<not> is_empty g \<and> shape g \<noteq> OtherGeometry then 1 else 0)"
  by (cases "shape g") (simp_all add: draw_one_def Let_def)

lemma concat_map_paths:
  "length (filter is_path (concat (map (\<lambda>(i, g). draw_one cols cell margin label font_size gscale (int i) g) xs))) =
     length (filter (\<lambda>(i, g). \<not> is_empty g \<and> shape g \<noteq> OtherGeometry) xs)"
proof (induction xs)
  case Nil
  show ?case by simp
next
  case (Cons x xs)
  obtain i g where x: "x = (i, g)" by (cases x)
  show ?case unfolding x using Cons.IH by (simp add: draw_one_paths)
qed

lemma filter_enumerate_snd:
  "length (filter (\<lambda>(i, g). P g) (enumerate n xs)) = length (filter P xs)"
  by (induction xs arbitrary: n) auto

lemma draw_loop_paths:
  "length (filter is_path (draw_loop cols cell margin label font_size gscale geoms)) =
     length (filter (\<lambda>g. \<not> is_empty g \<and> shape g \<noteq> OtherGeometry) geoms)"
  unfolding draw_loop_def concat_map_paths by (rule filter_enumerate_snd)

lemma draw_loop_skips_empty:
  "draw_loop cols cell margin label font_size gscale geoms =
     concat (map (\<lambda>(i, g). draw_one cols cell margin label font_size gscale (int i) g)
                 (filter (\<lambda>(i, g). \<not> is_empty g) (enumerate 0 geoms)))"
proof -
  have "concat (map (\<lambda>(i, g). draw_one cols cell margin label font_size gscale (int i) g) xs) =
        concat (map (\<lambda>(i, g). draw_one cols cell margin label font_size gscale (int i) g)
                 (filter (\<lambda>(i, g). \<not> is_empty g) xs))" for xs :: "(nat \<times> geom) list"
    by (induction xs) (auto simp: draw_one_def)
  then show ?thesis unfolding draw_loop_def .
qed

lemma draw_result:
  "draw_geoms_to_svg_scaled cols cell margin label font_size geoms =
     (if geoms = [] then Inl SystemExit
      else if cols = 0 then Inl ZeroDivisionError
      else case global_scale cell geoms of
             Inl e \<Rightarrow> Inl e
           | Inr gscale \<Rightarrow>
               Inr \<lparr> width = margin * 2 + cols * cell,
                     height = margin * 2 + ceiling (real (length geoms) / real_of_int cols) * cell,
                     elements = draw_loop cols cell margin label font_size gscale geoms \<rparr>)"
  by (simp add: draw_geoms_to_svg_scaled_def rows_of_def bindE_def Let_def split: sum.splits)

lemma global_scale_not_SystemExit:
  "global_scale cell geoms \<noteq> Inl SystemExit"
proof -
  have m: "py_max xs \<noteq> Inl SystemExit" for xs by (cases xs) simp_all
  have d: "py_truediv a b \<noteq> Inl SystemExit" for a b by (simp add: py_truediv_def)
  show ?thesis
    using m d by (auto simp: global_scale_def bindE_def split: sum.splits)
qed

text \<open>
  C10. A non-empty collection whose geometries are all empty makes the global-scale
  computation raise \<open>ValueError\<close> (\<open>max\<close> of an empty sequence); the renderer
  returns that exception, so no path is emitted (with \<open>cols = 0\<close> the row count
  has raised already). The explicit empty-input error \<open>SystemExit\<close> is raised
  exactly when the collection has length zero.
\<close>

theorem all_empty_collection_raises:
  "(draw_geoms_to_svg_scaled cols cell margin label font_size geoms = Inl SystemExit
      \<longleftrightarrow> geoms = [])
   \<and> (geoms \<noteq> [] \<and> list_all is_empty geoms \<longrightarrow>
        global_scale cell geoms = Inl ValueError
        \<and> draw_geoms_to_svg_scaled cols cell margin label font_size geoms =
            Inl (if cols = 0 then ZeroDivisionError else ValueError))"
proof -
  have a: "draw_geoms_to_svg_scaled cols cell margin label font_size geoms = Inl SystemExit
             \<longleftrightarrow> geoms = []"
    using global_scale_not_SystemExit [of cell geoms]
    by (auto simp: draw_result split: sum.splits)
  have b: "global_scale cell geoms = Inl ValueError" if "list_all is_empty geoms"
    using that by (rule global_scale_all_empty)
  have c: "draw_geoms_to_svg_scaled cols cell margin label font_size geoms =
             Inl (if cols = 0 then ZeroDivisionError else ValueError)"
    if "geoms \<noteq> []" "list_all is_empty geoms"
    using that b by (simp add: draw_result)
  from a b c show ?thesis by blast
qed

theorem all_empty_collection_raises_witness:
  "draw_geoms_to_svg_scaled 14 64 24 False 8 [empty_geom, empty_geom] = Inl ValueError
   \<and> global_scale 64 [empty_geom, empty_geom] = Inl ValueError
   \<and> draw_geoms_to_svg_scaled 14 64 24 False 8 [] = Inl SystemExit"
  using all_empty_collection_raises [of 14 64 24 False 8 "[empty_geom, empty_geom]"]
    all_empty_collection_raises [of 14 64 24 False 8 "[]"]
  by (simp add: empty_geom_def)

text \<open>
  C8. The claim holds for script 06 and fails on scripts 02 and 04 by a missing guard.
  A collection whose only non-empty geometry has zero width (here the line that
  \<open>make_valid\<close> returns for a collapsed polygon) is not excluded from the maxima:
  \<open>max_w\<close> is 0, \<open>inner / max_w\<close> raises \<open>ZeroDivisionError\<close> and the renderer
  of script 02 fails. On the same input the guarded scale of script 06 is 1.
\<close>

theorem zero_width_collection_raises:
  "\<not> is_empty sliver_line \<and> extent_w sliver_line = 0
   \<and> global_scale 64 [sliver_line] = Inl ZeroDivisionError
   \<and> draw_geoms_to_svg_scaled 14 64 24 False 8 [sliver_line] = Inl ZeroDivisionError
   \<and> global_scale_guarded 64 [sliver_line] = Inr 1"
proof -
  have a: "\<not> is_empty sliver_line" "extent_w sliver_line = 0" "extent_h sliver_line = 1"
    by (simp_all add: sliver_line_def extent_w_def extent_h_def)
  have b: "global_scale 64 [sliver_line] = Inl ZeroDivisionError"
    by (simp add: a global_scale_def bindE_def py_truediv_def)
  then have c: "draw_geoms_to_svg_scaled 14 64 24 False 8 [sliver_line] = Inl ZeroDivisionError"
    by (simp add: draw_result)
  have d: "global_scale_guarded 64 [sliver_line] = Inr 1"
    by (simp add: a global_scale_guarded_def bindE_def)
  from a b c d show ?thesis by simp
qed

section \<open>Classification properties\<close>

text \<open>
  C5. A Feature whose date attribute parses to a timestamp equal to the cutoff is put
  in the category of dates on or after the cutoff, by \<open>pick_color\<close> and by
  \<open>pick_color_2025\<close>: the comparison is inclusive.
\<close>

theorem cutoff_is_inclusive:
  assumes "parse_firedate to_datetime (row_get r ''firedate'') = Some fd"
    and "replace_tz_utc_if_naive fd = cutoff_dt_utc"
  shows "pick_color to_datetime int_of_str r cutoff_dt_utc = Inr COLOR_RECENT
         \<and> pick_color_2025 to_datetime r cutoff_dt_utc = Inr COLOR_GRANATE"
proof -
  from assms(2) obtain t where t: "cutoff_dt_utc = Aware t" "replace_tz_utc_if_naive fd = Aware t"
    by (cases fd) (auto simp: replace_tz_utc_if_naive_def)
  show ?thesis
    by (simp add: pick_color_def pick_color_2025_def assms(1) t bindE_def)
qed

theorem cutoff_is_inclusive_witness:
  "pick_color example_to_datetime example_int_of_str
     [''firedate'' \<mapsto> PStr ''2025-08-08T00:00:00Z'', ''fireyear'' \<mapsto> PInt 2025]
     cutoff_2025_08_08 = Inr COLOR_RECENT
   \<and> pick_color_2025 example_to_datetime
     [''firedate'' \<mapsto> PStr ''2025-08-08T00:00:00Z'', ''fireyear'' \<mapsto> PInt 2025]
     cutoff_2025_08_08 = Inr COLOR_GRANATE"
proof -
  let ?r = "[''firedate'' \<mapsto> PStr ''2025-08-08T00:00:00Z'', ''fireyear'' \<mapsto> PInt 2025]"
  have p: "parse_firedate example_to_datetime (row_get ?r ''firedate'') = Some (Aware 1754611200000000)"
    by (simp add: parse_firedate_def row_get_def example_to_datetime_def)
  have c: "replace_tz_utc_if_naive (Aware 1754611200000000) = cutoff_2025_08_08"
    by (simp add: replace_tz_utc_if_naive_def cutoff_2025_08_08_def)
  from cutoff_is_inclusive [OF p c] show ?thesis .
qed

lemma date_unusable_parse:
  "date_unusable to_datetime val \<longleftrightarrow> parse_firedate to_datetime val = None"
  by (auto simp: date_unusable_def parse_firedate_def split: sum.splits option.splits)

text \<open>
  With a missing or unparseable date the date predicate does not raise and is skipped:
  \<open>pick_color_2025\<close> returns its default colour and \<open>pick_color\<close> goes on to the
  year predicate.
\<close>

lemma unusable_date_skips_date_predicate:
  assumes "date_unusable to_datetime (row_get r ''firedate'')"
  shows "parse_firedate to_datetime (row_get r ''firedate'') = None
         \<and> pick_color_2025 to_datetime r cutoff_dt_utc = Inr COLOR_ROSA
         \<and> pick_color to_datetime int_of_str r cutoff_dt_utc = year_rule int_of_str r"
proof -
  from assms have n: "parse_firedate to_datetime (row_get r ''firedate'') = None"
    by (simp only: date_unusable_parse)
  then show ?thesis by (simp add: pick_color_2025_def pick_color_def)
qed

text \<open>
  C6. The claim fails on \<open>pick_color\<close> by an unguarded conversion. For a row with
  neither a date nor a year the date predicate is skipped, the year predicate
  evaluates \<open>int(None)\<close> and \<open>pick_color\<close> raises \<open>TypeError\<close>, where its
  docstring sends every remaining row to \<open>COLOR_DEFAULT\<close>. On the same row
  \<open>pick_color_2025\<close> returns its default colour.
\<close>

theorem pick_color_missing_year_raises:
  "date_unusable example_to_datetime (row_get Map.empty ''firedate'')
   \<and> row_get Map.empty ''fireyear'' = PNone
   \<and> pick_color example_to_datetime example_int_of_str Map.empty cutoff_2025_08_08 = Inl TypeError
   \<and> pick_color_2025 example_to_datetime Map.empty cutoff_2025_08_08 = Inr COLOR_ROSA"
  by (simp add: date_unusable_def pick_color_def pick_color_2025_def parse_firedate_def
      year_rule_def py_int_def row_get_def bindE_def)

section \<open>GeometryRepair properties\<close>

text \<open>
  C7 (as amended). When the two primitives fail, if at all, with exceptions that derive
  from \<open>Exception\<close>, the renderer's \<open>make_valid\<close> never raises: it returns the
  result of the validity-fixing transform when that succeeds, otherwise the result of
  the zero-distance buffer when that succeeds, otherwise the geometry it was given.
\<close>

theorem make_valid_never_raises:
  assumes "fails_with_Exception_only (shapely_make_valid geom)"
    and "fails_with_Exception_only (buffer0 geom)"
  shows "(\<exists>g'. make_valid shapely_make_valid buffer0 geom = Inr g')
   \<and> (\<forall>v. shapely_make_valid geom = Inr v \<longrightarrow>
          make_valid shapely_make_valid buffer0 geom = Inr v)
   \<and> (\<forall>e v. shapely_make_valid geom = Inl e \<and> buffer0 geom = Inr v \<longrightarrow>
          make_valid shapely_make_valid buffer0 geom = Inr v)
   \<and> (\<forall>e e'. shapely_make_valid geom = Inl e \<and> buffer0 geom = Inl e' \<longrightarrow>
          make_valid shapely_make_valid buffer0 geom = Inr geom)"
  using assms
  by (auto simp: make_valid_def fails_with_Exception_only_def split: sum.splits)

theorem make_valid_never_raises_witness:
  "make_valid example_shapely_make_valid example_buffer0 sliver = Inr sliver_line
   \<and> make_valid failing_make_valid example_buffer0 sliver = Inr empty_geom"
proof -
  have a: "fails_with_Exception_only (example_shapely_make_valid sliver)"
    "fails_with_Exception_only (failing_make_valid sliver)"
    "fails_with_Exception_only (example_buffer0 sliver)"
    by (simp_all add: fails_with_Exception_only_def example_shapely_make_valid_def
        failing_make_valid_def example_buffer0_def)
  have b: "example_shapely_make_valid sliver = Inr sliver_line"
    "failing_make_valid sliver = Inl GEOSException"
    "example_buffer0 sliver = Inr empty_geom"
    by (simp_all add: example_shapely_make_valid_def failing_make_valid_def example_buffer0_def)
  from make_valid_never_raises [of example_shapely_make_valid sliver example_buffer0, OF a(1) a(3)] b(1)
  have c: "make_valid example_shapely_make_valid example_buffer0 sliver = Inr sliver_line"
    by blast
  from make_valid_never_raises [of failing_make_valid sliver example_buffer0, OF a(2) a(3)] b(2) b(3)
  have d: "make_valid failing_make_valid example_buffer0 sliver = Inr empty_geom"
    by blast
  from c d show ?thesis by simp
qed

text \<open>
  The claim as stated also covers the aggregator's \<open>safe_make_valid\<close>, which never
  attempts the validity-fixing transform. On the sliver that transform succeeds and
  gives the line, which is what \<open>make_valid\<close> returns; \<open>safe_make_valid\<close> returns
  the empty polygon of \<open>buffer(0)\<close> instead.
\<close>

theorem safe_make_valid_skips_transform_counterexample:
  "example_shapely_make_valid sliver = Inr sliver_line
   \<and> make_valid example_shapely_make_valid example_buffer0 sliver = Inr sliver_line
   \<and> safe_make_valid example_buffer0 [sliver] = Inr [empty_geom]
   \<and> empty_geom \<noteq> sliver_line"
  by (simp add: make_valid_def safe_make_valid_def bindE_def example_shapely_make_valid_def
      example_buffer0_def empty_geom_def sliver_line_def)

section \<open>Minimum-area filter properties\<close>

lemma find_area_field_Some:
  assumes "find_area_field fires = Some f"
  shows "f \<in> set area_candidates \<and> f \<in> set (columns fires)"
  using assms unfolding find_area_field_def by (auto simp: find_Some_iff)

lemma find_area_field_None:
  "find_area_field fires = None \<longleftrightarrow> \<not> (\<exists>c\<in>set area_candidates. c \<in> set (columns fires))"
  unfolding find_area_field_def by (auto simp: find_None_iff)

lemma filter_with_field:
  assumes "find_area_field fires = Some f"
  shows "filter_fires_min_ha area_m2 fires m = select_ge fires f m"
  using assms by (simp add: filter_fires_min_ha_def)

lemma select_ge_drops_NaN:
  assumes "props r f = NaN"
  shows "r \<notin> set (rows (select_ge fires f m))"
  using assms by (simp add: select_ge_def)

text \<open>
  C9. When a candidate area column exists, the filter compares the first such column
  of the priority list with \<open>min_ha\<close>: the frame keeps its columns, the kept rows
  are rows of the input as they were, a row whose value in that column is NaN is not
  kept, and the result does not depend on the geometric measurement. The measurement
  can only matter when no candidate column exists.
\<close>

theorem filter_trusts_area_column:
  "(\<forall>f. find_area_field fires = Some f \<longrightarrow>
       f \<in> set area_candidates \<and> f \<in> set (columns fires)
       \<and> columns (filter_fires_min_ha area_m2 fires m) = columns fires
       \<and> rows (filter_fires_min_ha area_m2 fires m) =
           filter (\<lambda>r. float_ge (props r f) m) (rows fires)
       \<and> (\<forall>r. props r f = NaN \<longrightarrow> r \<notin> set (rows (filter_fires_min_ha area_m2 fires m)))
       \<and> filter_fires_min_ha area_m2' fires m = filter_fires_min_ha area_m2 fires m)
   \<and> ((\<exists>c\<in>set area_candidates. c \<in> set (columns fires)) \<longleftrightarrow> find_area_field fires \<noteq> None)
   \<and> (filter_fires_min_ha area_m2' fires m \<noteq> filter_fires_min_ha area_m2 fires m \<longrightarrow>
        \<not> (\<exists>c\<in>set area_candidates. c \<in> set (columns fires)))"
proof -
  have a: "f \<in> set area_candidates \<and> f \<in> set (columns fires)
       \<and> columns (filter_fires_min_ha area_m2 fires m) = columns fires
       \<and> rows (filter_fires_min_ha area_m2 fires m) =
           filter (\<lambda>r. float_ge (props r f) m) (rows fires)
       \<and> (\<forall>r. props r f = NaN \<longrightarrow> r \<notin> set (rows (filter_fires_min_ha area_m2 fires m)))
       \<and> filter_fires_min_ha area_m2' fires m = filter_fires_min_ha area_m2 fires m"
    if f: "find_area_field fires = Some f" for f
    using find_area_field_Some [OF f] select_ge_drops_NaN [of _ f fires m]
    by (simp add: filter_with_field [OF f]) (simp add: select_ge_def)
  have b: "(\<exists>c\<in>set area_candidates. c \<in> set (columns fires)) \<longleftrightarrow> find_area_field fires \<noteq> None"
    by (simp add: find_area_field_None)
  have c: "\<not> (\<exists>c\<in>set area_candidates. c \<in> set (columns fires))"
    if "filter_fires_min_ha area_m2' fires m \<noteq> filter_fires_min_ha area_m2 fires m"
  proof (cases "find_area_field fires")
    case None
    then show ?thesis by (simp add: find_area_field_None)
  next
    case (Some f)
    with that show ?thesis by (simp add: filter_with_field)
  qed
  from a b c show ?thesis by blast
qed

theorem filter_trusts_area_column_witness:
  "find_area_field fires_2025 = Some ''area_ha''
   \<and> props event_nan ''area_ha'' = NaN
   \<and> rows (filter_fires_min_ha region_area_m2 fires_2025 30) = [event_a]
   \<and> columns (filter_fires_min_ha region_area_m2 fires_2025 30) = [''area_ha'']"
proof -
  have f: "find_area_field fires_2025 = Some ''area_ha''"
    by (simp add: find_area_field_def fires_2025_def area_candidates_def)
  have n: "props event_nan ''area_ha'' = NaN" "props event_a ''area_ha'' = Num 100"
    by (simp_all add: event_nan_def event_a_def)
  from filter_trusts_area_column [of fires_2025 region_area_m2 30 region_area_m2] f
  have "columns (filter_fires_min_ha region_area_m2 fires_2025 30) = columns fires_2025
        \<and> rows (filter_fires_min_ha region_area_m2 fires_2025 30) =
            filter (\<lambda>r. float_ge (props r ''area_ha'') 30) (rows fires_2025)"
    by blast
  with f n show ?thesis by (simp add: fires_2025_def)
qed

section \<open>OverlayAggregator properties\<close>

lemma filter_key_distinct:
  "distinct ks \<Longrightarrow>
   filter (\<lambda>p. fst p = k) (map (\<lambda>k. (k, S k)) ks) = (if k \<in> set ks then [(k, S k)] else [])"
  by (induction ks) auto

lemma groupby_sum_lookup:
  "filter (\<lambda>p. fst p = k) (groupby_sum kv) =
     (if k \<in> fst ` set kv then [(k, key_total kv k)] else [])"
proof -
  have d: "distinct (sort (remdups (map fst kv)))" by simp
  have s: "set (sort (remdups (map fst kv))) = fst ` set kv" by simp
  show ?thesis
    unfolding groupby_sum_def
    using filter_key_distinct [OF d, of k "key_total kv"]
    by (simp only: s)
qed

lemma key_total_absent: "k \<notin> fst ` set kv \<Longrightarrow> key_total kv k = 0"
proof -
  assume "k \<notin> fst ` set kv"
  then have "filter (\<lambda>p. fst p = k) kv = []" by (auto simp: filter_empty_conv)
  then show ?thesis by (simp add: key_total_def)
qed

lemma fill_merge_row:
  "map fill_pct (case filter (\<lambda>p. fst p = k) (groupby_sum kv) of
          [] \<Rightarrow> [(k, t, None)]
        | m # ms \<Rightarrow> map (\<lambda>p. (k, t, Some (snd p))) (m # ms)) =
     [\<lparr> unit_name = k, area_total_ha = t, burn_ha = key_total kv k,
        pct = times_100 (float_div (key_total kv k) t) \<rparr>]"
  by (simp add: groupby_sum_lookup fill_pct_def key_total_absent Let_def)

lemma out_rows:
  "map fill_pct (merge_left surf (groupby_sum kv)) =
     map (\<lambda>(k, t). \<lparr> unit_name = k, area_total_ha = t, burn_ha = key_total kv k,
                      pct = times_100 (float_div (key_total kv k) t) \<rparr>) surf"
proof (induction surf)
  case Nil
  show ?case by (simp add: merge_left_def)
next
  case (Cons x xs)
  obtain k t where x: "x = (k, t)" by (cases x)
  from Cons.IH show ?case
    unfolding x merge_left_def by (simp add: fill_merge_row)
qed

lemma burn_table_rows:
  "burn_table srt bs es =
     srt (map (\<lambda>b. \<lparr> unit_name = NAMEUNIT b,
                     area_total_ha = region_area_m2 (boundary_geometry b) / 10000,
                     burn_ha = key_total (burn_pieces bs es) (NAMEUNIT b),
                     pct = times_100 (float_div (key_total (burn_pieces bs es) (NAMEUNIT b))
                             (region_area_m2 (boundary_geometry b) / 10000)) \<rparr>) bs)"
  by (simp add: burn_table_def Let_def out_rows comp_def)

lemma region_area_empty: "region_area_m2 {||} = 0"
  by (simp add: region_area_m2_def)

lemma pieces_of_boundary:
  "key_total (map (\<lambda>p. (fst p, region_area_m2 (snd p) / 10000))
       (concat (map (\<lambda>e. if boundary_geometry b |\<inter>| geometry e = {||} then []
                           else [(NAMEUNIT b, boundary_geometry b |\<inter>| geometry e)]) es))) k =
     (if NAMEUNIT b = k then pair_burn_ha es b else 0)"
  by (induction es) (auto simp: key_total_def pair_burn_ha_def region_area_empty)

lemma key_total_append: "key_total (xs @ ys) k = key_total xs k + key_total ys k"
  by (simp add: key_total_def)

lemma key_total_burn_pieces:
  "key_total (burn_pieces bs es) k =
     sum_list (map (\<lambda>b. if NAMEUNIT b = k then pair_burn_ha es b else 0) bs)"
proof (induction bs)
  case Nil
  show ?case by (simp add: burn_pieces_def overlay_intersection_def key_total_def)
next
  case (Cons b bs)
  have "burn_pieces (b # bs) es =
        map (\<lambda>p. (fst p, region_area_m2 (snd p) / 10000))
          (concat (map (\<lambda>e. if boundary_geometry b |\<inter>| geometry e = {||} then []
                           else [(NAMEUNIT b, boundary_geometry b |\<inter>| geometry e)]) es))
        @ burn_pieces bs es"
    by (simp add: burn_pieces_def overlay_intersection_def)
  then show ?case
    using Cons.IH by (simp only: key_total_append pieces_of_boundary list.map sum_list.Cons)
qed

lemma distinct_label_pick:
  assumes "distinct (map NAMEUNIT bs)" "b \<in> set bs"
  shows "sum_list (map (\<lambda>b'. if NAMEUNIT b' = NAMEUNIT b then f b' else (0::real)) bs) = f b"
  using assms
proof (induction bs)
  case Nil
  then show ?case by simp
next
  case (Cons a bs)
  show ?case
  proof (cases "a = b")
    case True
    from Cons.prems(1) True have "NAMEUNIT b \<notin> NAMEUNIT ` set bs" by simp
    then have "\<forall>b'\<in>set bs. NAMEUNIT b' \<noteq> NAMEUNIT b" by (metis imageI)
    then have "sum_list (map (\<lambda>b'. if NAMEUNIT b' = NAMEUNIT b then f b' else 0) bs) = 0"
      by (induction bs) auto
    with True show ?thesis by simp
  next
    case False
    with Cons.prems have in_bs: "b \<in> set bs" and d: "distinct (map NAMEUNIT bs)" by auto
    from Cons.prems(1) in_bs have "NAMEUNIT a \<noteq> NAMEUNIT b" by auto
    with Cons.IH [OF d in_bs] show ?thesis by simp
  qed
qed

lemma burn_of_boundary:
  assumes "distinct (map NAMEUNIT bs)" "b \<in> set bs"
  shows "key_total (burn_pieces bs es) (NAMEUNIT b) = pair_burn_ha es b"
  by (simp only: key_total_burn_pieces distinct_label_pick [OF assms])

lemma sum_burn_rows:
  assumes "distinct (map NAMEUNIT bs)"
  shows "sum_list (map (\<lambda>b. key_total (burn_pieces bs es) (NAMEUNIT b)) bs) =
         sum_list (map (pair_burn_ha es) bs)"
proof -
  have "map (\<lambda>b. key_total (burn_pieces bs es) (NAMEUNIT b)) bs = map (pair_burn_ha es) bs"
    by (rule map_cong [OF refl]) (simp add: burn_of_boundary [OF assms])
  then show ?thesis by (rule arg_cong)
qed

lemma sum_list_swap:
  "sum_list (map (\<lambda>x. sum_list (map (\<lambda>y. (f x y :: real)) ys)) xs) =
   sum_list (map (\<lambda>y. sum_list (map (\<lambda>x. f x y) xs)) ys)"
proof (induction xs)
  case Nil
  show ?case by simp
next
  case (Cons x xs)
  then show ?case by (simp add: sum_list_addf)
qed

lemma card_inter_union_all:
  assumes "pairwise_disjoint gs"
  shows "fcard (e |\<inter>| union_all gs) = sum_list (map (\<lambda>g. fcard (g |\<inter>| e)) gs)"
  using assms
proof (induction gs)
  case Nil
  show ?case by simp
next
  case (Cons g gs)
  from Cons.prems have dj: "\<forall>h\<in>set gs. g |\<inter>| h = {||}" and pd: "pairwise_disjoint gs"
    by (auto simp: list_all_iff)
  have gu: "g |\<inter>| union_all gs = {||}" using dj by (induction gs) auto
  have "e |\<inter>| union_all (g # gs) = (e |\<inter>| g) |\<union>| (e |\<inter>| union_all gs)"
    by auto
  moreover have "(e |\<inter>| g) |\<inter>| (e |\<inter>| union_all gs) = {||}" using gu by auto
  ultimately have "fcard (e |\<inter>| union_all (g # gs)) = fcard (e |\<inter>| g) + fcard (e |\<inter>| union_all gs)"
    by (simp only: fcard_funion_disjoint)
  with Cons.IH [OF pd] show ?case by (simp add: finter_commute)
qed

lemma dissolve_labels_distinct: "distinct (map NAMEUNIT (dissolve ccaa))"
  by (simp add: dissolve_def comp_def)

lemma sum_list_perm:
  assumes "mset ys = mset xs"
  shows "sum_list (map f ys) = (sum_list (map f xs) :: real)"
proof -
  have "sum_list (map f ys) = sum_mset (image_mset f (mset ys))"
    by (simp only: mset_map [symmetric] sum_mset_sum_list)
  also have "\<dots> = sum_mset (image_mset f (mset xs))" by (simp only: assms)
  also have "\<dots> = sum_list (map f xs)"
    by (simp only: mset_map [symmetric] sum_mset_sum_list)
  finally show ?thesis .
qed

lemma total_burn_pairs:
  assumes perm: "\<And>xs. mset (srt xs) = mset xs"
    and d: "distinct (map NAMEUNIT bs)"
  shows "sum_list (map burn_ha (burn_table srt bs es)) = sum_list (map (pair_burn_ha es) bs)"
proof -
  have "sum_list (map burn_ha (burn_table srt bs es)) =
        sum_list (map (\<lambda>b. key_total (burn_pieces bs es) (NAMEUNIT b)) bs)"
    unfolding burn_table_rows by (simp add: sum_list_perm [OF perm] comp_def)
  then show ?thesis by (simp only: sum_burn_rows [OF d])
qed

lemma real_sum_div:
  "sum_list (map (\<lambda>b. real (f b) / c) bs) = real (sum_list (map f bs)) / c"
  by (induction bs) (simp_all add: add_divide_distrib)

lemma pairs_to_union:
  assumes "pairwise_disjoint (map boundary_geometry bs)"
  shows "sum_list (map (pair_burn_ha es) bs) = sum_list (map (spec_event_area_ha bs) es)"
proof -
  have "sum_list (map (pair_burn_ha es) bs) =
        sum_list (map (\<lambda>e. sum_list (map (\<lambda>b. real (fcard (boundary_geometry b |\<inter>| geometry e)) / 10000) bs)) es)"
    unfolding pair_burn_ha_def region_area_m2_def by (rule sum_list_swap)
  also have "\<dots> = sum_list (map (spec_event_area_ha bs) es)"
  proof -
    have "sum_list (map (\<lambda>b. real (fcard (boundary_geometry b |\<inter>| geometry e)) / 10000) bs) =
          spec_event_area_ha bs e" for e
      using card_inter_union_all [OF assms, of "geometry e"]
      by (simp add: real_sum_div spec_event_area_ha_def region_area_m2_def comp_def)
    then show ?thesis by simp
  qed
  finally show ?thesis .
qed

lemma no_overlap_no_burn:
  assumes "list_all (\<lambda>e. boundary_geometry b |\<inter>| geometry e = {||}) es"
  shows "pair_burn_ha es b = 0"
  using assms by (induction es) (simp_all add: pair_burn_ha_def region_area_m2_def)

lemma mset_insert_row: "mset (insert_row r xs) = add_mset r (mset xs)"
  by (induction xs) simp_all

lemma example_sort_values_perm: "mset (example_sort_values xs) = mset xs"
  unfolding example_sort_values_def by (induction xs) (simp_all add: mset_insert_row)

lemma qualifying_2025: "rows (filter_fires_min_ha region_area_m2 fires_2025 30) = [event_a]"
  by (simp add: filter_fires_min_ha_def find_area_field_def area_candidates_def select_ge_def
      fires_2025_def event_a_def event_nan_def)

lemma dissolve_west_east: "dissolve [west, east] = [east, west]"
  by (simp add: dissolve_def west_def east_def)

lemma dissolve_west_overlap: "dissolve [west, overlap] = [overlap, west]"
  by (simp add: dissolve_def west_def overlap_def)

lemma dissolve_west_north: "dissolve [west, north] = [north, west]"
  by (simp add: dissolve_def west_def north_def)

lemma dissolve_islet: "dissolve [islet] = [islet]"
  by (simp add: dissolve_def islet_def)

text \<open>
  C2 (as amended). When the dissolved boundaries are pairwise disjoint, the sum over
  all boundary labels of the reported burned area equals the sum over all qualifying
  events (those the minimum-area filter keeps) of the area of the intersection of the
  event with the union of all boundaries.
\<close>

theorem burn_total_matches_union:
  assumes "\<And>xs. mset (sort_values_pct xs) = mset xs"
    and "pairwise_disjoint (map boundary_geometry (dissolve ccaa))"
  shows "sum_list (map burn_ha (main sort_values_pct ccaa fires min_ha)) =
         sum_list (map (spec_event_area_ha (dissolve ccaa))
                       (rows (filter_fires_min_ha region_area_m2 fires min_ha)))"
  unfolding main_def
  by (simp only: total_burn_pairs [OF assms(1) dissolve_labels_distinct] pairs_to_union [OF assms(2)])

theorem burn_total_matches_union_witness:
  "sum_list (map burn_ha (main example_sort_values [west, east] fires_2025 30)) = 2 / 10000"
proof -
  have dj: "pairwise_disjoint (map boundary_geometry (dissolve [west, east]))"
    unfolding dissolve_west_east by (simp add: west_def east_def)
  from burn_total_matches_union [of example_sort_values "[west, east]" fires_2025 30,
      OF example_sort_values_perm dj]
  show ?thesis
    unfolding qualifying_2025 dissolve_west_east
    by (simp add: spec_event_area_ha_def region_area_m2_def
        west_def east_def event_a_def fcard_finsert_if fcard_fempty)
qed

text \<open>
  The claim as stated fails for boundaries that overlap: the overlay yields one piece
  per boundary, so the shared cell of the event is counted under both labels.
\<close>

theorem overlapping_boundaries_counterexample:
  "sum_list (map burn_ha (main example_sort_values [west, overlap] fires_2025 30)) = 2 / 10000
   \<and> sum_list (map (spec_event_area_ha (dissolve [west, overlap]))
         (rows (filter_fires_min_ha region_area_m2 fires_2025 30))) = 1 / 10000"
proof -
  have d: "distinct (map NAMEUNIT [overlap, west])" by (simp add: west_def overlap_def)
  have a: "sum_list (map burn_ha (main example_sort_values [west, overlap] fires_2025 30)) = 2 / 10000"
    unfolding main_def dissolve_west_overlap qualifying_2025
      total_burn_pairs [OF example_sort_values_perm d]
    by (simp add: pair_burn_ha_def
        region_area_m2_def west_def overlap_def event_a_def fcard_finsert_if fcard_fempty)
  have b: "sum_list (map (spec_event_area_ha (dissolve [west, overlap]))
         (rows (filter_fires_min_ha region_area_m2 fires_2025 30))) = 1 / 10000"
    unfolding qualifying_2025 dissolve_west_overlap
    by (simp add: spec_event_area_ha_def region_area_m2_def
        west_def overlap_def event_a_def fcard_finsert_if fcard_fempty)
  from a b show ?thesis by simp
qed

text \<open>
  C4 (as amended). The result has exactly one row per label of the dissolved boundary
  set. The row of a label carries its total area; when no qualifying event intersects
  the boundary, the burned area is 0, and the percent is 0 provided the total area is
  not zero.
\<close>

theorem every_label_has_row:
  assumes perm: "\<And>xs. mset (sort_values_pct xs) = mset xs"
    and b: "b \<in> set (dissolve ccaa)"
  shows "length (main sort_values_pct ccaa fires min_ha) = length (dissolve ccaa)
    \<and> (\<exists>r\<in>set (main sort_values_pct ccaa fires min_ha).
         unit_name r = NAMEUNIT b
         \<and> area_total_ha r = region_area_m2 (boundary_geometry b) / 10000
         \<and> (list_all (\<lambda>e. boundary_geometry b |\<inter>| geometry e = {||})
                (rows (filter_fires_min_ha region_area_m2 fires min_ha)) \<longrightarrow>
              burn_ha r = 0 \<and> (area_total_ha r \<noteq> 0 \<longrightarrow> pct r = Num 0)))"
proof -
  let ?es = "rows (filter_fires_min_ha region_area_m2 fires min_ha)"
  let ?bs = "dissolve ccaa"
  let ?R = "\<lambda>b. \<lparr> unit_name = NAMEUNIT b,
                     area_total_ha = region_area_m2 (boundary_geometry b) / 10000,
                     burn_ha = key_total (burn_pieces ?bs ?es) (NAMEUNIT b),
                     pct = times_100 (float_div (key_total (burn_pieces ?bs ?es) (NAMEUNIT b))
                             (region_area_m2 (boundary_geometry b) / 10000)) \<rparr>"
  have m: "main sort_values_pct ccaa fires min_ha = sort_values_pct (map ?R ?bs)"
    unfolding main_def by (rule burn_table_rows)
  have len: "length (main sort_values_pct ccaa fires min_ha) = length ?bs"
    using perm [of "map ?R ?bs"] mset_eq_length [of "sort_values_pct (map ?R ?bs)" "map ?R ?bs"]
    by (simp add: m)
  have "set (sort_values_pct (map ?R ?bs)) = set (map ?R ?bs)"
    using perm [of "map ?R ?bs"] by (rule mset_eq_setD)
  with b have r: "?R b \<in> set (main sort_values_pct ccaa fires min_ha)"
    by (simp add: m)
  have k: "key_total (burn_pieces ?bs ?es) (NAMEUNIT b) = pair_burn_ha ?es b"
    by (rule burn_of_boundary [OF dissolve_labels_distinct b])
  have z: "list_all (\<lambda>e. boundary_geometry b |\<inter>| geometry e = {||}) ?es \<longrightarrow>
           burn_ha (?R b) = 0 \<and> (area_total_ha (?R b) \<noteq> 0 \<longrightarrow> pct (?R b) = Num 0)"
  proof
    assume "list_all (\<lambda>e. boundary_geometry b |\<inter>| geometry e = {||}) ?es"
    from no_overlap_no_burn [OF this]
    show "burn_ha (?R b) = 0 \<and> (area_total_ha (?R b) \<noteq> 0 \<longrightarrow> pct (?R b) = Num 0)"
      by (simp add: k float_div_def)
  qed
  show ?thesis
  proof (intro conjI)
    show "length (main sort_values_pct ccaa fires min_ha) = length ?bs" by (rule len)
    show "\<exists>r\<in>set (main sort_values_pct ccaa fires min_ha).
         unit_name r = NAMEUNIT b
         \<and> area_total_ha r = region_area_m2 (boundary_geometry b) / 10000
         \<and> (list_all (\<lambda>e. boundary_geometry b |\<inter>| geometry e = {||}) ?es \<longrightarrow>
              burn_ha r = 0 \<and> (area_total_ha r \<noteq> 0 \<longrightarrow> pct r = Num 0))"
    proof (rule bexI [OF _ r])
      show "unit_name (?R b) = NAMEUNIT b
         \<and> area_total_ha (?R b) = region_area_m2 (boundary_geometry b) / 10000
         \<and> (list_all (\<lambda>e. boundary_geometry b |\<inter>| geometry e = {||}) ?es \<longrightarrow>
              burn_ha (?R b) = 0 \<and> (area_total_ha (?R b) \<noteq> 0 \<longrightarrow> pct (?R b) = Num 0))"
      proof (intro conjI)
        show "unit_name (?R b) = NAMEUNIT b" by simp
        show "area_total_ha (?R b) = region_area_m2 (boundary_geometry b) / 10000" by simp
        show "list_all (\<lambda>e. boundary_geometry b |\<inter>| geometry e = {||}) ?es \<longrightarrow>
              burn_ha (?R b) = 0 \<and> (area_total_ha (?R b) \<noteq> 0 \<longrightarrow> pct (?R b) = Num 0)"
          by (rule z)
      qed
    qed
  qed
qed

theorem every_label_has_row_witness:
  "\<exists>r\<in>set (main example_sort_values [west, north] fires_2025 30).
      unit_name r = ''North'' \<and> area_total_ha r = 2 / 10000 \<and> burn_ha r = 0 \<and> pct r = Num 0"
proof -
  have b: "north \<in> set (dissolve [west, north])" by (simp add: dissolve_west_north)
  have e: "list_all (\<lambda>e. boundary_geometry north |\<inter>| geometry e = {||})
             (rows (filter_fires_min_ha region_area_m2 fires_2025 30))"
    unfolding qualifying_2025 by (simp add: north_def event_a_def)
  have n: "NAMEUNIT north = ''North''" "region_area_m2 (boundary_geometry north) / 10000 = 2 / 10000"
    by (simp_all add: north_def region_area_m2_def fcard_finsert_if fcard_fempty)
  from every_label_has_row [of example_sort_values north "[west, north]" fires_2025 30,
      OF example_sort_values_perm b] e n
  show ?thesis by auto
qed

text \<open>
  The claim as stated promises percent 0. A boundary without area has total 0, and
  pandas evaluates 0.0 / 0.0 to NaN.
\<close>

theorem zero_area_boundary_counterexample:
  "main example_sort_values [islet] fires_2025 30 =
     [\<lparr> unit_name = ''Islet'', area_total_ha = 0, burn_ha = 0, pct = NaN \<rparr>]"
proof -
  have d: "distinct (map NAMEUNIT [islet])" by simp
  have k: "key_total (burn_pieces [islet] [event_a]) (NAMEUNIT islet) = 0"
    unfolding burn_of_boundary [OF d, of islet, simplified]
    by (simp add: pair_burn_ha_def region_area_m2_def islet_def fcard_fempty)
  show ?thesis
    unfolding main_def dissolve_islet qualifying_2025 burn_table_rows
    by (simp add: k example_sort_values_def region_area_m2_def float_div_def)
      (simp add: islet_def)
qed

end
